theory Spec2Isabelle
  imports Complex_Main "HOL-Library.Word" "HOL-Library.AList"
begin

unbundle bit_operations_syntax

section \<open>Python values used by the pipeline\<close>

subsection \<open>Strings\<close>

text \<open>
  A Python \<open>str\<close> is modelled as a \<open>string\<close> whose characters are the code points below
  256 (ASCII and the Latin-1 supplement). On these code points \<open>str.lower\<close> adds 32 to
  \<open>A\<close>..\<open>Z\<close> and to 0xC0..0xDE except 0xD7, and leaves every other character alone;
  \<open>str.isspace\<close>, which \<open>str.strip\<close> uses, holds of 0x09..0x0D, 0x1C..0x20, 0x85 and 0xA0.
\<close>

definition py_lower_char :: "char \<Rightarrow> char" where
  "py_lower_char c =
     (let n = (of_char c :: nat)
      in if (65 \<le> n \<and> n \<le> 90) \<or> (192 \<le> n \<and> n \<le> 222 \<and> n \<noteq> 215)
         then char_of (n + 32) else c)"

definition py_lower :: "string \<Rightarrow> string" where
  "py_lower s = map py_lower_char s"

definition py_isspace :: "char \<Rightarrow> bool" where
  "py_isspace c =
     (let n = (of_char c :: nat)
      in (9 \<le> n \<and> n \<le> 13) \<or> (28 \<le> n \<and> n \<le> 32) \<or> n = 133 \<or> n = 160)"

definition py_strip :: "string \<Rightarrow> string" where
  "py_strip s = rev (dropWhile py_isspace (rev (dropWhile py_isspace s)))"

text \<open>\<open>kw in s\<close> on strings: \<open>kw\<close> occurs in \<open>s\<close> as a contiguous substring.\<close>

fun py_in :: "string \<Rightarrow> string \<Rightarrow> bool" where
  "py_in kw [] = (kw = [])"
| "py_in kw (c # s) = (take (length kw) (c # s) = kw \<or> py_in kw s)"

text \<open>\<open>x or ''''\<close> on an optional string: \<open>None\<close> and the empty string give the empty string.\<close>

fun or_empty :: "string option \<Rightarrow> string" where
  "or_empty None = []"
| "or_empty (Some s) = s"

text \<open>An f-string field \<open>{x}\<close>: \<open>None\<close> is rendered as the text \<open>None\<close>.\<close>

fun fstr :: "string option \<Rightarrow> string" where
  "fstr None = ''None''"
| "fstr (Some s) = s"

text \<open>\<open>str.encode()\<close>: UTF-8, one byte below 128 and two bytes from 128 to 255.\<close>

type_synonym byte = "8 word"
type_synonym u32 = "32 word"

definition encode_char :: "char \<Rightarrow> byte list" where
  "encode_char c =
     (let n = (of_char c :: nat)
      in if n < 128 then [of_nat n]
         else [0xC0 OR of_nat (n div 64), 0x80 OR of_nat (n mod 64)])"

definition encode :: "string \<Rightarrow> byte list" where
  "encode s = concat (map encode_char s)"

subsection \<open>Numbers\<close>

text \<open>
  A salary amount is a Python number: an \<open>int\<close> or a \<open>float\<close>. Finite numbers compare
  by their exact value, so they are rationals here; the three special floats are kept
  apart. Every comparison with \<open>nan\<close> is false, and \<open>nan\<close> is truthy.
\<close>

datatype pynum = Fin rat | PosInf | NegInf | NaN

fun py_gt :: "pynum \<Rightarrow> pynum \<Rightarrow> bool" where
  "py_gt NaN _ = False"
| "py_gt _ NaN = False"
| "py_gt (Fin a) (Fin b) = (a > b)"
| "py_gt PosInf PosInf = False"
| "py_gt PosInf _ = True"
| "py_gt NegInf _ = False"
| "py_gt (Fin a) NegInf = True"
| "py_gt (Fin a) PosInf = False"

fun py_ge :: "pynum \<Rightarrow> pynum \<Rightarrow> bool" where
  "py_ge NaN _ = False"
| "py_ge _ NaN = False"
| "py_ge (Fin a) (Fin b) = (a \<ge> b)"
| "py_ge PosInf _ = True"
| "py_ge NegInf NegInf = True"
| "py_ge NegInf _ = False"
| "py_ge (Fin a) NegInf = True"
| "py_ge (Fin a) PosInf = False"

text \<open>\<open>max(a, b)\<close> keeps \<open>a\<close> unless \<open>b > a\<close>.\<close>

definition py_max :: "pynum \<Rightarrow> pynum \<Rightarrow> pynum" where
  "py_max a b = (if py_gt b a then b else a)"

text \<open>\<open>x or 0\<close> on an optional number: \<open>None\<close> and zero give \<open>0\<close>.\<close>

fun or_zero :: "pynum option \<Rightarrow> pynum" where
  "or_zero None = Fin 0"
| "or_zero (Some x) = (if x = Fin 0 then Fin 0 else x)"

section \<open>hashlib.md5\<close>

text \<open>
  The digest of the standard library, after RFC 1321: the message is padded to a
  multiple of 64 bytes, read as little-endian 32-bit words and folded block by block
  into four 32-bit registers.
\<close>

definition md5_K :: "u32 list" where
  "md5_K = [
    0xd76aa478, 0xe8c7b756, 0x242070db, 0xc1bdceee, 0xf57c0faf, 0x4787c62a, 0xa8304613, 0xfd469501,
    0x698098d8, 0x8b44f7af, 0xffff5bb1, 0x895cd7be, 0x6b901122, 0xfd987193, 0xa679438e, 0x49b40821,
    0xf61e2562, 0xc040b340, 0x265e5a51, 0xe9b6c7aa, 0xd62f105d, 0x02441453, 0xd8a1e681, 0xe7d3fbc8,
    0x21e1cde6, 0xc33707d6, 0xf4d50d87, 0x455a14ed, 0xa9e3e905, 0xfcefa3f8, 0x676f02d9, 0x8d2a4c8a,
    0xfffa3942, 0x8771f681, 0x6d9d6122, 0xfde5380c, 0xa4beea44, 0x4bdecfa9, 0xf6bb4b60, 0xbebfbc70,
    0x289b7ec6, 0xeaa127fa, 0xd4ef3085, 0x04881d05, 0xd9d4d039, 0xe6db99e5, 0x1fa27cf8, 0xc4ac5665,
    0xf4292244, 0x432aff97, 0xab9423a7, 0xfc93a039, 0x655b59c3, 0x8f0ccc92, 0xffeff47d, 0x85845dd1,
    0x6fa87e4f, 0xfe2ce6e0, 0xa3014314, 0x4e0811a1, 0xf7537e82, 0xbd3af235, 0x2ad7d2bb, 0xeb86d391]"

definition md5_s :: "nat list" where
  "md5_s = [7, 12, 17, 22, 7, 12, 17, 22, 7, 12, 17, 22, 7, 12, 17, 22,
            5, 9, 14, 20, 5, 9, 14, 20, 5, 9, 14, 20, 5, 9, 14, 20,
            4, 11, 16, 23, 4, 11, 16, 23, 4, 11, 16, 23, 4, 11, 16, 23,
            6, 10, 15, 21, 6, 10, 15, 21, 6, 10, 15, 21, 6, 10, 15, 21]"

definition rotl32 :: "u32 \<Rightarrow> nat \<Rightarrow> u32" where
  "rotl32 x n = push_bit n x OR drop_bit (32 - n) x"

definition le_word :: "byte list \<Rightarrow> u32" where
  "le_word bs = foldr (\<lambda>b acc. push_bit 8 acc OR ucast b) bs 0"

definition le_bytes32 :: "u32 \<Rightarrow> byte list" where
  "le_bytes32 w = map (\<lambda>i. ucast (drop_bit (8 * i) w)) [0, 1, 2, 3]"

definition le_bytes64 :: "64 word \<Rightarrow> byte list" where
  "le_bytes64 w = map (\<lambda>i. ucast (drop_bit (8 * i) w)) [0, 1, 2, 3, 4, 5, 6, 7]"

definition md5_pad :: "byte list \<Rightarrow> byte list" where
  "md5_pad msg =
     (let n = length msg;
          z = (55 + 64 - n mod 64) mod 64
      in msg @ [0x80] @ replicate z 0 @ le_bytes64 (8 * of_nat n))"

fun md5_words :: "byte list \<Rightarrow> u32 list" where
  "md5_words (a # b # c # d # rest) = le_word [a, b, c, d] # md5_words rest"
| "md5_words _ = []"

fun md5_blocks :: "nat \<Rightarrow> u32 list \<Rightarrow> u32 list list" where
  "md5_blocks 0 ws = []"
| "md5_blocks (Suc n) ws = take 16 ws # md5_blocks n (drop 16 ws)"

type_synonym md5_state = "u32 \<times> u32 \<times> u32 \<times> u32"

definition md5_step :: "u32 list \<Rightarrow> md5_state \<Rightarrow> nat \<Rightarrow> md5_state" where
  "md5_step M st i =
     (case st of (A, B, C, D) \<Rightarrow>
        let (F, g) =
              (if i < 16 then ((B AND C) OR (NOT B AND D), i)
               else if i < 32 then ((D AND B) OR (NOT D AND C), (5 * i + 1) mod 16)
               else if i < 48 then (B XOR C XOR D, (3 * i + 5) mod 16)
               else (C XOR (B OR NOT D), (7 * i) mod 16));
            F' = F + A + md5_K ! i + M ! g
        in (D, B + rotl32 F' (md5_s ! i), B, C))"

definition md5_block :: "md5_state \<Rightarrow> u32 list \<Rightarrow> md5_state" where
  "md5_block st M =
     (case st of (a0, b0, c0, d0) \<Rightarrow>
        case foldl (md5_step M) st [0..<64] of (A, B, C, D) \<Rightarrow>
          (a0 + A, b0 + B, c0 + C, d0 + D))"

definition md5 :: "byte list \<Rightarrow> byte list" where
  "md5 msg =
     (let ws = md5_words (md5_pad msg);
          blocks = md5_blocks (length ws div 16) ws
      in case foldl md5_block (0x67452301, 0xefcdab89, 0x98badcfe, 0x10325476) blocks of
           (a, b, c, d) \<Rightarrow> le_bytes32 a @ le_bytes32 b @ le_bytes32 c @ le_bytes32 d)"

definition hex_digit :: "byte \<Rightarrow> char" where
  "hex_digit n = ''0123456789abcdef'' ! unat n"

definition hexdigest :: "byte list \<Rightarrow> string" where
  "hexdigest bs = concat (map (\<lambda>b. [hex_digit (drop_bit 4 b), hex_digit (b AND 15)]) bs)"

section \<open>scripts/config.py\<close>

record config =
  SEARCH_QUERIES :: "string list"
  LOCATIONS :: "string list"
  TITLE_KEYWORDS_HIGH :: "string list"
  DESCRIPTION_KEYWORDS_MUST :: "string list"
  DESCRIPTION_KEYWORDS_NICE :: "string list"
  EXCLUDE_TITLE_KEYWORDS :: "string list"
  MIN_RELEVANCE_SCORE :: int
  MIN_SALARY_PREFERRED :: int
  SALARY_BOOST_THRESHOLD :: int

text \<open>The module as it is written.\<close>

definition scout_config :: config where
  "scout_config = \<lparr>
     SEARCH_QUERIES = [''Senior Program Manager'', ''Director of Growth'',
       ''Head of Strategy and Operations'', ''Senior Product Manager Growth'',
       ''Business Head'', ''Growth Strategy Lead'', ''Senior Business Manager'',
       ''Category Head'', ''P&L Manager'', ''Head of Business Operations'',
       ''AI Operations Manager'', ''Product Strategy Manager'', ''City Business Head'',
       ''Marketplace Operations Lead''],
     LOCATIONS = [''Pune, India'', ''Bangalore, India'', ''Mumbai, India'',
       ''Gurgaon, India'', ''Hyderabad, India'', ''Delhi, India'', ''Remote''],
     TITLE_KEYWORDS_HIGH = [''director'', ''head'', ''lead'', ''senior'', ''principal'', ''vp'',
       ''growth'', ''strategy'', ''program'', ''product'', ''business'',
       ''p&l'', ''marketplace'', ''category'', ''city''],
     DESCRIPTION_KEYWORDS_MUST = [''strategy'', ''growth'', ''program'', ''product'',
       ''operations'', ''p&l'', ''business'', ''stakeholder'', ''cross-functional''],
     DESCRIPTION_KEYWORDS_NICE = [''ai'', ''sql'', ''data'', ''analytics'', ''user acquisition'',
       ''marketplace'', ''food'', ''delivery'', ''consumer'', ''fintech'',
       ''tableau'', ''dashboard'', ''okr'', ''revenue''],
     EXCLUDE_TITLE_KEYWORDS = [''intern'', ''fresher'', ''junior'', ''associate'',
       ''entry level'', ''trainee'', ''graduate'', ''assistant''],
     MIN_RELEVANCE_SCORE = 30,
     MIN_SALARY_PREFERRED = 2500000,
     SALARY_BOOST_THRESHOLD = 3500000 \<rparr>"

section \<open>scripts/utils.py\<close>

subsection \<open>Job records\<close>

text \<open>
  A job is a dictionary with the keys the scraping pipeline writes. A key that may be
  absent or \<open>None\<close> is an optional field (\<open>None\<close> for both); \<open>jid\<close> is the key \<open>_id\<close>,
  and the other fields named after a key with a leading underscore drop it.
\<close>

record job =
  title :: "string option"
  company :: "string option"
  company_url :: "string option"
  job_url :: "string option"
  location :: "string option"
  is_remote :: bool
  description :: "string option"
  job_type :: "string option"
  source :: "string option"
  date_posted :: string
  emails :: "string list"
  min_amount :: "pynum option"
  max_amount :: "pynum option"
  currency :: "string option"
  salary_source :: "string option"
  jid :: "string option"
  scraped_at :: string
  scraped_date :: string
  search_query :: string
  relevance_score :: "int option"
  status :: string
  tailored :: bool
  outreach_drafted :: bool
  outreach_sent :: bool

subsection \<open>generate\_job\_id\<close>

definition generate_job_id :: "string \<Rightarrow> string \<Rightarrow> string \<Rightarrow> string" where
  "generate_job_id t c l =
     (let raw = py_strip (py_lower (t @ c @ l))
      in take 12 (hexdigest (md5 (encode raw))))"

subsection \<open>score\_relevance\<close>

text \<open>\<open>sum(1 for kw in kws if kw in s)\<close>\<close>

definition hits :: "string list \<Rightarrow> string \<Rightarrow> int" where
  "hits kws s = int (length (filter (\<lambda>kw. py_in kw s) kws))"

definition salary_boost :: "'a job_scheme \<Rightarrow> config \<Rightarrow> int" where
  "salary_boost job cfg =
     (let min_salary = or_zero (min_amount job);
          max_salary = or_zero (max_amount job);
          salary = py_max min_salary max_salary
      in if py_ge salary (Fin (of_int (SALARY_BOOST_THRESHOLD cfg))) then 15
         else if py_ge salary (Fin (of_int (MIN_SALARY_PREFERRED cfg))) then 8
         else 0)"

definition score_relevance :: "'a job_scheme \<Rightarrow> config \<Rightarrow> int" where
  "score_relevance job cfg =
     (let score = 0;
          title = py_lower (or_empty (title job));
          description = py_lower (or_empty (description job));
          text = title @ '' '' @ description;
          title_hits = hits (TITLE_KEYWORDS_HIGH cfg) title;
          score = score + min 40 (title_hits * 12);
          must_hits = hits (DESCRIPTION_KEYWORDS_MUST cfg) text;
          score = score + min 25 (must_hits * 5);
          nice_hits = hits (DESCRIPTION_KEYWORDS_NICE cfg) text;
          score = score + min 20 (nice_hits * 3);
          score = score + salary_boost job cfg;
          score = (if list_ex (\<lambda>kw. py_in kw title) (EXCLUDE_TITLE_KEYWORDS cfg) then 0 else score)
      in min 100 score)"

text \<open>The record of the specification's scoring example.\<close>

definition blank_job :: job where
  "blank_job = \<lparr> title = None, company = None, company_url = None, job_url = None,
     location = None, is_remote = False, description = None, job_type = None,
     source = None, date_posted = [], emails = [], min_amount = None, max_amount = None,
     currency = None, salary_source = None, jid = None, scraped_at = [], scraped_date = [],
     search_query = [], relevance_score = None, status = ''new'', tailored = False,
     outreach_drafted = False, outreach_sent = False \<rparr>"

definition example_job :: job where
  "example_job = blank_job \<lparr>
     title := Some ''Senior Program Manager'',
     description := Some ''growth strategy program product operations stakeholder ai sql data analytics'' \<rparr>"

subsection \<open>deduplicate\_jobs\<close>

datatype error = KeyError | JSONDecodeError

text \<open>
  A Python dictionary keeps its keys in insertion order, and assigning to a key that is
  present keeps the key's place: an association list under \<open>AList.update\<close>.
  \<open>dict_assign m js\<close> is the loop \<open>for j in js: m[j["_id"]] = j\<close>; reading \<open>j["_id"]\<close>
  raises \<open>KeyError\<close> when the job has no such key.
\<close>

fun dict_assign :: "(string \<times> job) list \<Rightarrow> job list \<Rightarrow> error + (string \<times> job) list" where
  "dict_assign m [] = Inr m"
| "dict_assign m (j # js) =
     (case jid j of
        None \<Rightarrow> Inl KeyError
      | Some k \<Rightarrow> dict_assign (AList.update k j m) js)"

definition deduplicate_jobs :: "job list \<Rightarrow> job list \<Rightarrow> error + job list" where
  "deduplicate_jobs new_jobs existing_jobs =
     (case dict_assign [] existing_jobs of
        Inl e \<Rightarrow> Inl e
      | Inr existing_map \<Rightarrow>
          (case dict_assign existing_map new_jobs of
             Inl e \<Rightarrow> Inl e
           | Inr existing_map' \<Rightarrow> Inr (map snd existing_map')))"

subsection \<open>The data directory\<close>

text \<open>
  The files of the data directory hold JSON documents. Two shapes are read back by the
  code modelled here: the job collection written by the scraping pipeline, and the log.
  A document is represented by what its readers see: \<open>existing_data.get("jobs", [])\<close>
  reads a document without the key \<open>jobs\<close> as the empty list, and
  \<open>log_data["entries"]\<close> raises \<open>KeyError\<close> on a document without the key \<open>entries\<close>.
\<close>

record log_rec =
  timestamp :: string
  level :: string
  message :: string

record jobs_doc =
  last_updated :: string
  total_jobs :: nat
  new_today :: "nat option"
  jobs :: "job list"

datatype doc = Jobs_doc jobs_doc | Log_doc "log_rec list"

text \<open>
  A file is absent, or exists with a text that \<open>json.load\<close> rejects (the empty text and
  every truncated document are such texts), or exists and holds a document.
\<close>

datatype file_state = Absent | Unparseable | Holds doc

type_synonym store = "string \<Rightarrow> file_state"

text \<open>
  An operation on the data directory returns its result or the exception it raised,
  and the directory as it has left it: what was written before an exception stays written.
\<close>

type_synonym 'a io = "store \<Rightarrow> (error + 'a) \<times> store"

definition thenM :: "'a io \<Rightarrow> ('a \<Rightarrow> 'b io) \<Rightarrow> 'b io" where
  "thenM m f = (\<lambda>st. case m st of (Inl e, st') \<Rightarrow> (Inl e, st') | (Inr x, st') \<Rightarrow> f x st')"

definition returnM :: "'a \<Rightarrow> 'a io" where
  "returnM x = (\<lambda>st. (Inr x, st))"

definition raiseM :: "error \<Rightarrow> 'a io" where
  "raiseM e = (\<lambda>st. (Inl e, st))"

definition load_json :: "string \<Rightarrow> (doc option) io" where
  "load_json filename =
     (\<lambda>st. case st filename of
        Absent \<Rightarrow> (Inr None, st)
      | Unparseable \<Rightarrow> (Inl JSONDecodeError, st)
      | Holds d \<Rightarrow> (Inr (Some d), st))"

text \<open>
  \<open>save_json\<close> opens the target path itself with mode \<open>w\<close>, which creates or truncates
  the file, and \<open>json.dump\<close> then writes the document into it; the text is complete when
  the \<open>with\<close> block closes the file. \<open>save_json_steps\<close> lists the states of the data
  directory that this passes through: after \<open>open\<close>, and after the block.
\<close>

definition save_json_steps :: "string \<Rightarrow> doc \<Rightarrow> store \<Rightarrow> store list" where
  "save_json_steps filename data st =
     [st(filename := Unparseable), st(filename := Holds data)]"

definition save_json :: "string \<Rightarrow> doc \<Rightarrow> unit io" where
  "save_json filename data = (\<lambda>st. (Inr (), last (save_json_steps filename data st)))"

text \<open>The clock: \<open>now_iso()\<close> and \<open>today_str()\<close>, read once for a run.\<close>

record clock =
  now_iso :: string
  today_str :: string

subsection \<open>log\_entry\<close>

definition entries_of :: "doc \<Rightarrow> error + log_rec list" where
  "entries_of d = (case d of Log_doc es \<Rightarrow> Inr es | Jobs_doc _ \<Rightarrow> Inl KeyError)"

text \<open>\<open>xs[-n:]\<close>\<close>

definition last_n :: "nat \<Rightarrow> 'a list \<Rightarrow> 'a list" where
  "last_n n xs = drop (length xs - n) xs"

definition log_entry :: "clock \<Rightarrow> string \<Rightarrow> string \<Rightarrow> unit io" where
  "log_entry clk msg lvl =
     thenM (load_json ''log.json'') (\<lambda>r.
       let log_data = (case r of None \<Rightarrow> Log_doc [] | Some d \<Rightarrow> d)
       in case entries_of log_data of
            Inl e \<Rightarrow> raiseM e
          | Inr es \<Rightarrow>
              save_json ''log.json''
                (Log_doc (last_n 500
                   (es @ [\<lparr> timestamp = now_iso clk, level = lvl, message = msg \<rparr>]))))"

section \<open>scripts/scrape\_jobs.py\<close>

text \<open>
  The scraper is an external library. One call returns a data frame, or \<open>None\<close> or an
  empty frame, or raises. A row of the frame is a record of cells; a cell is \<open>None\<close>
  or a value, and a column the frame lacks reads as the default given to \<open>row.get\<close>.
  Amount cells are floats.
\<close>

record row =
  r_title :: "string option"
  r_company_name :: "string option"
  r_company :: "string option"
  r_company_url :: "string option"
  r_job_url :: "string option"
  r_location :: "string option"
  r_is_remote :: "bool option"
  r_description :: "string option"
  r_job_type :: "string option"
  r_site :: "string option"
  r_date_posted :: "string option"
  r_emails :: "string list option"
  r_min_amount :: "pynum option"
  r_max_amount :: "pynum option"
  r_currency :: "string option"
  r_salary_source :: "string option"

datatype scrape_outcome = Raises string | No_rows | Rows "row list"

type_synonym scraper = "string \<Rightarrow> string \<Rightarrow> scrape_outcome"

text \<open>\<open>a or b\<close> on optional strings.\<close>

fun or_else :: "string option \<Rightarrow> string option \<Rightarrow> string option" where
  "or_else (Some s) b = (if s = [] then b else Some s)"
| "or_else None b = b"

text \<open>
  \<open>float(x) if x and not (isinstance(x, float) and math.isnan(x)) else None\<close>:
  \<open>None\<close>, zero and \<open>nan\<close> become \<open>None\<close>.
\<close>

fun amount_of :: "pynum option \<Rightarrow> pynum option" where
  "amount_of None = None"
| "amount_of (Some x) = (if x = Fin 0 \<or> x = NaN then None else Some x)"

definition build_job :: "config \<Rightarrow> clock \<Rightarrow> string \<Rightarrow> row \<Rightarrow> job" where
  "build_job cfg clk query r =
     (let job = \<lparr>
            title = r_title r,
            company = or_else (r_company_name r) (r_company r),
            company_url = r_company_url r,
            job_url = r_job_url r,
            location = r_location r,
            is_remote = (case r_is_remote r of None \<Rightarrow> False | Some b \<Rightarrow> b),
            description = r_description r,
            job_type = r_job_type r,
            source = r_site r,
            date_posted = fstr (r_date_posted r),
            emails = (case r_emails r of None \<Rightarrow> [] | Some es \<Rightarrow> es),
            min_amount = amount_of (r_min_amount r),
            max_amount = amount_of (r_max_amount r),
            currency = r_currency r,
            salary_source = r_salary_source r,
            jid = Some (generate_job_id (fstr (r_title r))
                          (fstr (or_else (r_company_name r) (r_company r)))
                          (fstr (r_location r))),
            scraped_at = now_iso clk,
            scraped_date = today_str clk,
            search_query = query,
            relevance_score = None,
            status = ''new'',
            tailored = False,
            outreach_drafted = False,
            outreach_sent = False \<rparr>
      in job \<lparr> relevance_score := Some (score_relevance job cfg) \<rparr>)"

text \<open>\<open>j.get("_relevance_score", 0)\<close>\<close>

definition score_of :: "job \<Rightarrow> int" where
  "score_of j = (case relevance_score j of None \<Rightarrow> 0 | Some s \<Rightarrow> s)"

text \<open>The rows of one frame: each row becomes a job, kept when its score reaches the floor.\<close>

definition accepted :: "config \<Rightarrow> clock \<Rightarrow> string \<Rightarrow> row list \<Rightarrow> job list" where
  "accepted cfg clk query rs =
     filter (\<lambda>job. score_of job \<ge> MIN_RELEVANCE_SCORE cfg) (map (build_job cfg clk query) rs)"

text \<open>
  The two nested loops over queries and locations, with the accumulators
  \<open>all_new_jobs\<close> and \<open>errors\<close>. A call of the scraper that raises is logged and the
  loop goes on; an exception of \<open>log_entry\<close> inside the handler ends the run.
\<close>

fun scrape_pairs ::
  "config \<Rightarrow> clock \<Rightarrow> scraper \<Rightarrow> (string \<times> string) list \<Rightarrow> job list \<times> string list
     \<Rightarrow> (job list \<times> string list) io" where
  "scrape_pairs cfg clk scr [] acc st = (Inr acc, st)"
| "scrape_pairs cfg clk scr ((query, loc) # rest) (all_new_jobs, errors) st =
     (case scr query loc of
        Raises e \<Rightarrow>
          (let err_msg = ''Scrape failed: '' @ [CHR 39] @ query @ [CHR 39] @ '' @ ''
                           @ [CHR 39] @ loc @ [CHR 39] @ '': '' @ e
           in case log_entry clk err_msg ''error'' st of
                (Inl x, st') \<Rightarrow> (Inl x, st')
              | (Inr _, st') \<Rightarrow> scrape_pairs cfg clk scr rest (all_new_jobs, errors @ [err_msg]) st')
      | No_rows \<Rightarrow> scrape_pairs cfg clk scr rest (all_new_jobs, errors) st
      | Rows rs \<Rightarrow>
          scrape_pairs cfg clk scr rest (all_new_jobs @ accepted cfg clk query rs, errors) st)"

text \<open>\<open>str(n)\<close> for a length.\<close>

function str_nat :: "nat \<Rightarrow> string" where
  "str_nat n =
     (if n < 10 then [char_of (48 + n)] else str_nat (n div 10) @ [char_of (48 + n mod 10)])"
  by pat_completeness auto
termination
  by (relation "measure id") auto

definition jobs_of :: "doc \<Rightarrow> job list" where
  "jobs_of d = (case d of Jobs_doc jd \<Rightarrow> jobs jd | Log_doc _ \<Rightarrow> [])"

definition empty_jobs_doc :: doc where
  "empty_jobs_doc = Jobs_doc \<lparr> last_updated = [], total_jobs = 0, new_today = None, jobs = [] \<rparr>"

text \<open>\<open>merged.sort(key=..., reverse=True)\<close>: a stable sort, highest score first.\<close>

definition sort_by_score :: "job list \<Rightarrow> job list" where
  "sort_by_score js = sort_key (\<lambda>j. - score_of j) js"

text \<open>The part of \<open>scrape_all\<close> after the loops: everything from \<open>seen = {}\<close> on.\<close>

definition merge_and_save :: "clock \<Rightarrow> job list \<Rightarrow> string list \<Rightarrow> jobs_doc io" where
  "merge_and_save clk all_new_jobs errors =
     (case dict_assign [] all_new_jobs of
        Inl e \<Rightarrow> raiseM e
      | Inr seen \<Rightarrow>
          (let all_new_jobs = map snd seen
           in thenM (load_json ''jobs.json'') (\<lambda>r.
                let existing_data = (case r of None \<Rightarrow> empty_jobs_doc | Some d \<Rightarrow> d);
                    existing_jobs = jobs_of existing_data
                in case deduplicate_jobs all_new_jobs existing_jobs of
                     Inl e \<Rightarrow> raiseM e
                   | Inr merged \<Rightarrow>
                       (let merged = sort_by_score merged;
                            output = \<lparr> last_updated = now_iso clk,
                                       total_jobs = length merged,
                                       new_today = Some (length all_new_jobs),
                                       jobs = merged \<rparr>
                        in thenM (save_json ''jobs.json'' (Jobs_doc output)) (\<lambda>_.
                           thenM (log_entry clk
                                    (''Scrape complete: '' @ str_nat (length all_new_jobs)
                                       @ '' new jobs found, '' @ str_nat (length merged)
                                       @ '' total after dedup, '' @ str_nat (length errors)
                                       @ '' errors'') ''info'') (\<lambda>_.
                           returnM output))))))"

definition scrape_all :: "config \<Rightarrow> clock \<Rightarrow> scraper \<Rightarrow> jobs_doc io" where
  "scrape_all cfg clk scr =
     thenM (log_entry clk ''Starting daily job scrape'' ''info'') (\<lambda>_.
     thenM (scrape_pairs cfg clk scr (List.product (SEARCH_QUERIES cfg) (LOCATIONS cfg)) ([], []))
       (\<lambda>(all_new_jobs, errors). merge_and_save clk all_new_jobs errors))"

section \<open>scripts/update\_stats.py\<close>

text \<open>The score distribution of \<open>run_stats\<close>: the chain of comparisons picks one key.\<close>

definition bucket_key :: "int \<Rightarrow> string" where
  "bucket_key s =
     (if s \<ge> 90 then ''90-100''
      else if s \<ge> 70 then ''70-89''
      else if s \<ge> 50 then ''50-69''
      else if s \<ge> 30 then ''30-49''
      else ''0-29'')"

definition score_buckets :: "job list \<Rightarrow> (string \<times> nat) list" where
  "score_buckets js =
     foldl (\<lambda>b j. AList.map_entry (bucket_key (score_of j)) Suc b)
       [(''90-100'', 0), (''70-89'', 0), (''50-69'', 0), (''30-49'', 0), (''0-29'', 0)] js"

section \<open>Auxiliary notions and sample data\<close>

text \<open>
  The invariant of the dictionaries built by \<open>dict_assign\<close>: keys are unique and every
  job is stored under its own \<open>_id\<close>.
\<close>

definition well_keyed :: "(string \<times> job) list \<Rightarrow> bool" where
  "well_keyed m = (distinct (map fst m) \<and> (\<forall>e\<in>set m. jid (snd e) = Some (fst e)))"

text \<open>The second scoring example of the specification: an excluded title.\<close>

definition intern_job :: job where
  "intern_job = example_job \<lparr> title := Some ''Program Manager Intern'' \<rparr>"

text \<open>
  A stored record that later pipeline stages have marked, a freshly scraped record with
  the same \<open>_id\<close>, and a stored record with another \<open>_id\<close>.
\<close>

definition old_rec :: job where
  "old_rec = blank_job \<lparr>
     title := Some ''Head of Growth'', company := Some ''Acme'',
     description := Some ''old description'', jid := Some ''0a1b2c3d4e5f'',
     relevance_score := Some 49, status := ''applied'',
     tailored := True, outreach_drafted := True, outreach_sent := True \<rparr>"

definition new_rec :: job where
  "new_rec = blank_job \<lparr>
     title := Some ''Head of Growth'', company := Some ''Acme'',
     description := Some ''new description'', jid := Some ''0a1b2c3d4e5f'',
     relevance_score := Some 37 \<rparr>"

definition other_rec :: job where
  "other_rec = blank_job \<lparr>
     title := Some ''Director of Strategy'', company := Some ''Initech'',
     jid := Some ''ffeeddccbbaa'', relevance_score := Some 62 \<rparr>"

text \<open>
  Jobs for the statistics: one without a score, two with scores outside 0..100, and three
  with scores inside.
\<close>

definition stats_sample :: "job list" where
  "stats_sample =
     [blank_job,
      blank_job \<lparr> relevance_score := Some 150 \<rparr>,
      blank_job \<lparr> relevance_score := Some (- 5) \<rparr>,
      blank_job \<lparr> relevance_score := Some 95 \<rparr>,
      blank_job \<lparr> relevance_score := Some 30 \<rparr>,
      other_rec]"

section \<open>Properties\<close>

subsection \<open>Relevance scoring\<close>

lemma hits_nonneg: "0 \<le> hits kws s"
  by (simp add: hits_def)

lemma salary_boost_nonneg: "0 \<le> salary_boost job cfg"
  by (simp add: salary_boost_def Let_def)

text \<open>
  C1, as the code has it: the record with title "Senior Program Manager" and description
  "growth strategy program product operations stakeholder ai sql data analytics" and no
  salary fields scores 61 under the configured keyword lists, not 77. The title contains
  the two title keywords "senior" and "program" ("product" is not in the title), which
  gives 2 * 12 = 24; title and description together contain six of the must-have keywords,
  6 * 5 = 30 capped at 25; four of the nice-to-have keywords, 4 * 3 = 12; there is no
  salary boost and no excluded keyword in the title.
\<close>

theorem example_scores_61:
  "score_relevance example_job scout_config = 61
   \<and> hits (TITLE_KEYWORDS_HIGH scout_config) ''senior program manager'' = 2
   \<and> hits (DESCRIPTION_KEYWORDS_MUST scout_config)
        ''senior program manager growth strategy program product operations stakeholder ai sql data analytics'' = 6
   \<and> hits (DESCRIPTION_KEYWORDS_NICE scout_config)
        ''senior program manager growth strategy program product operations stakeholder ai sql data analytics'' = 4
   \<and> salary_boost example_job scout_config = 0"
  by code_simp

text \<open>C1 as the specification states it, with the score 77, fails.\<close>

theorem example_score_not_77: "score_relevance example_job scout_config \<noteq> 77"
  by code_simp

text \<open>
  C3: for every job record and configuration, if the lower-cased title contains a keyword
  of the exclusion list, \<open>score_relevance\<close> returns 0, whatever the title, description and
  salary sub-scores add up to; the zero replaces the sum, after the sum has been formed.
\<close>

theorem exclusion_forces_zero:
  "list_ex (\<lambda>kw. py_in kw (py_lower (or_empty (title job)))) (EXCLUDE_TITLE_KEYWORDS cfg)
   \<Longrightarrow> score_relevance job cfg = 0"
  by (simp add: score_relevance_def Let_def)

lemma intern_excluded:
  "list_ex (\<lambda>kw. py_in kw (py_lower (or_empty (title intern_job))))
     (EXCLUDE_TITLE_KEYWORDS scout_config)"
  by code_simp

lemma intern_unexcluded:
  "score_relevance intern_job (scout_config \<lparr> EXCLUDE_TITLE_KEYWORDS := [] \<rparr>) = 49"
  by code_simp

text \<open>
  The record titled "Program Manager Intern" scores 0, and the same record scores 49 once
  the exclusion list is empty: the 49 points were accumulated and then discarded.
\<close>

theorem exclusion_forces_zero_witness:
  "list_ex (\<lambda>kw. py_in kw (py_lower (or_empty (title intern_job))))
     (EXCLUDE_TITLE_KEYWORDS scout_config)
   \<and> score_relevance intern_job scout_config = 0
   \<and> score_relevance intern_job (scout_config \<lparr> EXCLUDE_TITLE_KEYWORDS := [] \<rparr>) = 49"
  using exclusion_forces_zero [of intern_job scout_config] intern_excluded intern_unexcluded
  by simp

text \<open>
  C4: for every job record, also one without title, description or salary fields, and
  every configuration, \<open>score_relevance\<close> returns an integer between 0 and 100.
\<close>

theorem score_relevance_bounded:
  "0 \<le> score_relevance job cfg \<and> score_relevance job cfg \<le> 100"
proof -
  have t: "0 \<le> hits (TITLE_KEYWORDS_HIGH cfg) (py_lower (or_empty (title job))) * 12"
    using hits_nonneg by simp
  have m: "0 \<le> hits (DESCRIPTION_KEYWORDS_MUST cfg)
        (py_lower (or_empty (title job)) @ '' '' @ py_lower (or_empty (description job))) * 5"
    using hits_nonneg by simp
  have n: "0 \<le> hits (DESCRIPTION_KEYWORDS_NICE cfg)
        (py_lower (or_empty (title job)) @ '' '' @ py_lower (or_empty (description job))) * 3"
    using hits_nonneg by simp
  have b: "0 \<le> salary_boost job cfg"
    by (rule salary_boost_nonneg)
  show ?thesis
    using t m n b by (simp add: score_relevance_def Let_def min_def)
qed

text \<open>The record with every optional field missing scores within the bounds.\<close>

theorem score_relevance_bounded_witness:
  "0 \<le> score_relevance blank_job scout_config \<and> score_relevance blank_job scout_config \<le> 100"
  using score_relevance_bounded [of blank_job scout_config] by simp

subsection \<open>Merging\<close>

lemma dict_assign_ids:
  "dict_assign m js = Inr m' \<Longrightarrow> \<forall>j\<in>set js. jid j \<noteq> None"
  by (induction js arbitrary: m) (auto split: option.splits)

lemma dict_assign_total:
  "\<forall>j\<in>set js. jid j \<noteq> None \<Longrightarrow> \<exists>m'. dict_assign m js = Inr m'"
  by (induction js arbitrary: m) (auto split: option.splits)

text \<open>After the loop a key maps to the last job of the list that carries it.\<close>

lemma dict_assign_map_of:
  "dict_assign m js = Inr m' \<Longrightarrow>
     map_of m' = map_of m ++ map_of (rev (map (\<lambda>j. (the (jid j), j)) js))"
proof (induction js arbitrary: m)
  case Nil
  then show ?case by simp
next
  case (Cons j js)
  from Cons.prems obtain k where k: "jid j = Some k"
    and rest: "dict_assign (AList.update k j m) js = Inr m'"
    by (auto split: option.splits)
  have "map_of m' = map_of (AList.update k j m) ++ map_of (rev (map (\<lambda>j. (the (jid j), j)) js))"
    by (rule Cons.IH [OF rest])
  also have "\<dots> = map_of m ++ (map_of [(k, j)] ++ map_of (rev (map (\<lambda>j. (the (jid j), j)) js)))"
    by (simp add: update_conv' map_add_upd_left [symmetric] del: map_add_upd_left)
  finally show ?case using k by simp
qed

lemma dict_assign_keys:
  "dict_assign m js = Inr m' \<Longrightarrow>
     set (map fst m') = set (map fst m) \<union> (\<lambda>j. the (jid j)) ` set js"
proof (induction js arbitrary: m)
  case Nil
  then show ?case by simp
next
  case (Cons j js)
  from Cons.prems obtain k where k: "jid j = Some k"
    and rest: "dict_assign (AList.update k j m) js = Inr m'"
    by (auto split: option.splits)
  show ?case
    using Cons.IH [OF rest] k by (auto simp: update_keys split: if_splits)
qed

text \<open>Assigning to keys that are all present leaves the order of the keys alone.\<close>

lemma dict_assign_keys_same:
  "dict_assign m js = Inr m' \<Longrightarrow> (\<lambda>j. the (jid j)) ` set js \<subseteq> set (map fst m)
   \<Longrightarrow> map fst m' = map fst m"
proof (induction js arbitrary: m)
  case Nil
  then show ?case by simp
next
  case (Cons j js)
  from Cons.prems(1) obtain k where k: "jid j = Some k"
    and rest: "dict_assign (AList.update k j m) js = Inr m'"
    by (auto split: option.splits)
  from Cons.prems(2) k have kin: "k \<in> set (map fst m)" by auto
  then have same: "map fst (AList.update k j m) = map fst m"
    by (simp add: update_keys)
  have "map fst m' = map fst (AList.update k j m)"
    using Cons.prems(2) same by (intro Cons.IH [OF rest]) auto
  with same show ?case by simp
qed

lemma update_well_keyed:
  "well_keyed m \<Longrightarrow> jid j = Some k \<Longrightarrow> well_keyed (AList.update k j m)"
proof -
  assume wk: "well_keyed m" and k: "jid j = Some k"
  have "\<forall>e\<in>set (AList.update k j m). jid (snd e) = Some (fst e)"
    using wk k by (induction m) (auto simp: well_keyed_def)
  moreover have "distinct (map fst (AList.update k j m))"
    using wk by (simp add: well_keyed_def distinct_update)
  ultimately show ?thesis by (simp add: well_keyed_def)
qed

lemma dict_assign_well_keyed:
  "dict_assign m js = Inr m' \<Longrightarrow> well_keyed m \<Longrightarrow> well_keyed m'"
  by (induction js arbitrary: m) (auto split: option.splits intro: update_well_keyed)

lemma alist_eqI:
  "distinct (map fst a) \<Longrightarrow> map fst a = map fst b \<Longrightarrow> map_of a = map_of b \<Longrightarrow> a = b"
proof (induction a arbitrary: b)
  case Nil
  then show ?case by simp
next
  case (Cons x a)
  from Cons.prems(2) obtain y b' where b: "b = y # b'" and fxy: "fst x = fst y"
    and keys: "map fst a = map fst b'"
    by (cases b) auto
  have "map_of (x # a) (fst x) = map_of (y # b') (fst x)"
    using fun_cong [OF Cons.prems(3), of "fst x"] by (simp only: b)
  with fxy have sxy: "snd x = snd y" by (cases x, cases y) simp
  have "map_of a = map_of b'"
  proof
    fix k
    show "map_of a k = map_of b' k"
    proof (cases "k = fst x")
      case True
      with Cons.prems(1) have "map_of a k = None"
        by (simp add: map_of_eq_None_iff)
      moreover from True Cons.prems(1) keys have "map_of b' k = None"
        by (metis distinct.simps(2) list.simps(9) map_of_eq_None_iff set_map)
      ultimately show ?thesis by simp
    next
      case False
      have "map_of (x # a) k = map_of (y # b') k"
        using fun_cong [OF Cons.prems(3), of k] by (simp only: b)
      with False fxy show ?thesis by (cases x, cases y) (simp split: if_splits)
    qed
  qed
  with Cons.IH [of b'] Cons.prems(1) keys have "a = b'" by simp
  with b fxy sxy show ?case by (simp add: prod_eq_iff)
qed

lemma dict_assign_again:
  assumes "dict_assign m js = Inr m'" and "distinct (map fst m)"
  shows "dict_assign m' js = Inr m'"
proof -
  from assms(1) have ids: "\<forall>j\<in>set js. jid j \<noteq> None" by (rule dict_assign_ids)
  then obtain m'' where m'': "dict_assign m' js = Inr m''"
    using dict_assign_total by blast
  have sub: "(\<lambda>j. the (jid j)) ` set js \<subseteq> set (map fst m')"
    using dict_assign_keys [OF assms(1)] by auto
  have keys: "map fst m'' = map fst m'"
    by (rule dict_assign_keys_same [OF m'' sub])
  have "map_of m'' = map_of m' ++ map_of (rev (map (\<lambda>j. (the (jid j), j)) js))"
    by (rule dict_assign_map_of [OF m''])
  also have "\<dots> = map_of m'"
    unfolding dict_assign_map_of [OF assms(1)]
    by (auto simp: fun_eq_iff map_add_def split: option.splits)
  finally have maps: "map_of m'' = map_of m'" .
  have "distinct (map fst m')"
    using assms by (induction js arbitrary: m) (auto split: option.splits simp: distinct_update)
  then have "m' = m''"
    using keys maps by (intro alist_eqI) simp_all
  with m'' show ?thesis by simp
qed

lemma update_fresh: "k \<notin> fst ` set a \<Longrightarrow> AList.update k v a = a @ [(k, v)]"
  by (induction a) auto

text \<open>Rebuilding a dictionary from its own values gives the dictionary back.\<close>

lemma dict_assign_values:
  "well_keyed (a @ m) \<Longrightarrow> dict_assign a (map snd m) = Inr (a @ m)"
proof (induction m arbitrary: a)
  case Nil
  then show ?case by simp
next
  case (Cons e m)
  obtain k j where e: "e = (k, j)" by (cases e)
  from Cons.prems e have k: "jid j = Some k" and fresh: "k \<notin> fst ` set a"
    by (auto simp: well_keyed_def)
  from Cons.prems e have "well_keyed ((a @ [(k, j)]) @ m)" by simp
  then have "dict_assign (a @ [(k, j)]) (map snd m) = Inr ((a @ [(k, j)]) @ m)"
    by (rule Cons.IH)
  with k fresh e show ?case by (simp add: update_fresh)
qed

lemma well_keyed_filter:
  "well_keyed m \<Longrightarrow> map_of m X = Some c \<Longrightarrow> filter (\<lambda>r. jid r = Some X) (map snd m) = [c]"
proof (induction m)
  case Nil
  then show ?case by simp
next
  case (Cons e m)
  obtain k j where e: "e = (k, j)" by (cases e)
  from Cons.prems(1) e have wk: "well_keyed m" and k: "jid j = Some k"
    and fresh: "k \<notin> fst ` set m" and all: "\<forall>e\<in>set m. jid (snd e) = Some (fst e)"
    by (auto simp: well_keyed_def)
  show ?case
  proof (cases "k = X")
    case True
    with Cons.prems(2) e have "j = c" by simp
    moreover have "filter (\<lambda>r. jid r = Some X) (map snd m) = []"
      using fresh all True by (auto simp: filter_empty_conv)
    ultimately show ?thesis using e k True by simp
  next
    case False
    with Cons.prems(2) e have "map_of m X = Some c" by simp
    with Cons.IH wk have "filter (\<lambda>r. jid r = Some X) (map snd m) = [c]" by simp
    with False e k show ?thesis by simp
  qed
qed

text \<open>
  C5: when a candidate \<open>c\<close> of the batch has the id \<open>X\<close> (and is the last of the batch with
  that id, which the batch-internal deduplication of the pipeline ensures), the collection
  returned by \<open>deduplicate_jobs\<close> has exactly one record with id \<open>X\<close>, and that record is
  \<open>c\<close> itself, whatever the persisted collection held under \<open>X\<close>: every field, with the
  description and the flags \<open>_tailored\<close>, \<open>_outreach_drafted\<close> and \<open>_outreach_sent\<close>, is the
  candidate's. The merge returns a collection whenever every record has an \<open>_id\<close>.
\<close>

theorem merge_overwrites:
  assumes ids: "\<forall>j\<in>set (pre @ [c] @ post @ E). jid j \<noteq> None"
    and X: "jid c = Some X"
    and last: "\<forall>j\<in>set post. jid j \<noteq> Some X"
  shows "\<exists>M. deduplicate_jobs (pre @ [c] @ post) E = Inr M
            \<and> filter (\<lambda>r. jid r = Some X) M = [c]"
proof -
  from ids obtain m1 where m1: "dict_assign [] E = Inr m1"
    using dict_assign_total [of E "[]"] by auto
  from ids obtain m2 where m2: "dict_assign m1 (pre @ [c] @ post) = Inr m2"
    using dict_assign_total [of "pre @ [c] @ post" m1] by auto
  have wk2: "well_keyed m2"
    using dict_assign_well_keyed [OF m2] dict_assign_well_keyed [OF m1]
    by (simp add: well_keyed_def)
  have nopost: "map_of (rev (map (\<lambda>j. (the (jid j), j)) post)) X = None"
    using ids last by (force simp: map_of_eq_None_iff image_iff)
  have "map_of m2 X = Some c"
    using X nopost by (simp add: dict_assign_map_of [OF m2] map_add_def)
  then have "filter (\<lambda>r. jid r = Some X) (map snd m2) = [c]"
    using wk2 by (intro well_keyed_filter)
  with m1 m2 show ?thesis by (simp add: deduplicate_jobs_def)
qed

text \<open>
  A stored record that is tailored and has outreach sent is replaced by the fresh, unmarked
  candidate with the same id; the stored record with another id stays.
\<close>

theorem merge_overwrites_witness:
  "jid old_rec = Some ''0a1b2c3d4e5f'' \<and> jid new_rec = Some ''0a1b2c3d4e5f''
   \<and> (\<exists>M. deduplicate_jobs ([] @ [new_rec] @ []) [other_rec, old_rec] = Inr M
          \<and> filter (\<lambda>r. jid r = Some ''0a1b2c3d4e5f'') M = [new_rec])
   \<and> old_rec \<noteq> new_rec \<and> tailored old_rec \<and> \<not> tailored new_rec"
proof -
  have h1: "\<forall>j\<in>set ([] @ [new_rec] @ [] @ [other_rec, old_rec]). jid j \<noteq> None"
    by (simp add: new_rec_def old_rec_def other_rec_def blank_job_def)
  have h2: "jid new_rec = Some ''0a1b2c3d4e5f''"
    by (simp add: new_rec_def blank_job_def)
  have h3: "\<forall>j\<in>set []. jid j \<noteq> Some ''0a1b2c3d4e5f''"
    by simp
  have h4: "old_rec \<noteq> new_rec \<and> tailored old_rec \<and> \<not> tailored new_rec"
    by (simp add: new_rec_def old_rec_def blank_job_def)
  have h5: "jid old_rec = Some ''0a1b2c3d4e5f''"
    by (simp add: old_rec_def blank_job_def)
  show ?thesis
    using merge_overwrites [OF h1 h2 h3] h2 h4 h5 by blast
qed

text \<open>
  C6: for every batch \<open>B\<close> and every existing collection \<open>E\<close>, merging \<open>B\<close> into the result
  of merging \<open>B\<close> into \<open>E\<close> returns that result again, in the same order, and the result
  holds no two records with the same id.
\<close>

theorem merge_idempotent:
  assumes "deduplicate_jobs B E = Inr M"
  shows "deduplicate_jobs B M = Inr M \<and> distinct (map jid M)"
proof -
  from assms obtain m1 m2 where m1: "dict_assign [] E = Inr m1"
    and m2: "dict_assign m1 B = Inr m2" and M: "M = map snd m2"
    by (auto simp: deduplicate_jobs_def split: sum.splits)
  have wk1: "well_keyed m1"
    using dict_assign_well_keyed [OF m1] by (simp add: well_keyed_def)
  have wk2: "well_keyed m2"
    by (rule dict_assign_well_keyed [OF m2 wk1])
  have rebuild: "dict_assign [] M = Inr m2"
    using dict_assign_values [of "[]" m2] wk2 M by simp
  have again: "dict_assign m2 B = Inr m2"
    using dict_assign_again [OF m2] wk1 by (simp add: well_keyed_def)
  have "map (jid \<circ> snd) m2 = map Some (map fst m2)"
    using wk2 by (simp add: well_keyed_def)
  moreover have "distinct (map Some (map fst m2))"
  proof -
    have "distinct (map fst m2)" using wk2 by (simp add: well_keyed_def)
    then show ?thesis by (subst distinct_map) simp
  qed
  ultimately have "distinct (map jid M)"
    unfolding M map_map by (simp only:)
  then show ?thesis
    using rebuild again M by (simp add: deduplicate_jobs_def)
qed

lemma sample_merge:
  "deduplicate_jobs [new_rec, new_rec] [other_rec, old_rec] = Inr [other_rec, new_rec]"
  by (simp add: deduplicate_jobs_def new_rec_def old_rec_def other_rec_def blank_job_def)

theorem merge_idempotent_witness:
  "deduplicate_jobs [new_rec, new_rec] [other_rec, old_rec] = Inr [other_rec, new_rec]
   \<and> deduplicate_jobs [new_rec, new_rec] [other_rec, new_rec] = Inr [other_rec, new_rec]
   \<and> distinct (map jid [other_rec, new_rec])"
  using merge_idempotent [OF sample_merge] sample_merge by simp

subsection \<open>Identity\<close>

lemma lower_space: "py_isspace c \<Longrightarrow> py_lower_char c = c"
  by (auto simp: py_isspace_def py_lower_char_def Let_def)

lemma py_lower_append: "py_lower (a @ b) = py_lower a @ py_lower b"
  by (simp add: py_lower_def)

lemma py_lower_spaces: "\<forall>x\<in>set ws. py_isspace x \<Longrightarrow> py_lower ws = ws"
  by (induction ws) (simp_all add: py_lower_def lower_space)

lemma strip_right:
  assumes "\<forall>x\<in>set ws. py_isspace x"
  shows "py_strip (s @ ws) = py_strip s"
proof (cases "\<exists>x\<in>set s. \<not> py_isspace x")
  case True
  then have "dropWhile py_isspace (s @ ws) = dropWhile py_isspace s @ ws"
    by (auto simp: dropWhile_append1)
  moreover have "dropWhile py_isspace (rev ws @ rev (dropWhile py_isspace s))
                   = dropWhile py_isspace (rev (dropWhile py_isspace s))"
    using assms by (intro dropWhile_append2) simp
  ultimately show ?thesis by (simp add: py_strip_def)
next
  case False
  then have all: "\<forall>x\<in>set (s @ ws). py_isspace x" "\<forall>x\<in>set s. py_isspace x"
    using assms by auto
  have "dropWhile py_isspace (s @ ws) = []"
    using all(1) by (subst dropWhile_eq_Nil_conv)
  moreover have "dropWhile py_isspace s = []"
    using all(2) by (subst dropWhile_eq_Nil_conv)
  ultimately show ?thesis by (simp only: py_strip_def)
qed

lemma strip_left:
  assumes "\<forall>x\<in>set ws. py_isspace x"
  shows "py_strip (ws @ s) = py_strip s"
proof -
  have "dropWhile py_isspace (ws @ s) = dropWhile py_isspace s"
    using assms by (intro dropWhile_append2) simp
  then show ?thesis by (simp add: py_strip_def)
qed

lemma length_md5: "length (md5 msg) = 16"
  by (simp add: md5_def Let_def le_bytes32_def split: prod.splits)

lemma length_hexdigest: "length (hexdigest bs) = 2 * length bs"
  by (induction bs) (simp_all add: hexdigest_def)

text \<open>
  C2, as the code has it: \<open>generate_job_id\<close> lower-cases and strips the concatenation of
  title, company and location, not each field. Two triples whose components differ only
  in casing, in whitespace before the title and in whitespace after the location get the
  same 12-character identifier.
\<close>

theorem job_id_normalised:
  assumes "py_lower t' = py_lower t" and "py_lower c' = py_lower c" and "py_lower l' = py_lower l"
    and "\<forall>x\<in>set ws1. py_isspace x" and "\<forall>x\<in>set ws2. py_isspace x"
  shows "generate_job_id (ws1 @ t') c' (l' @ ws2) = generate_job_id t c l
         \<and> length (generate_job_id t c l) = 12"
proof -
  have "py_lower ((ws1 @ t') @ c' @ l' @ ws2) = ws1 @ py_lower (t @ c @ l) @ ws2"
    using assms by (simp add: py_lower_append py_lower_spaces)
  then have "py_strip (py_lower ((ws1 @ t') @ c' @ l' @ ws2)) = py_strip (py_lower (t @ c @ l))"
    using assms(4,5) strip_left [of ws1 "py_lower (t @ c @ l) @ ws2"]
      strip_right [of ws2 "py_lower (t @ c @ l)"] by simp
  then have "generate_job_id (ws1 @ t') c' (l' @ ws2) = generate_job_id t c l"
    by (simp add: generate_job_id_def)
  moreover have "length (generate_job_id t c l) = 12"
    by (simp add: generate_job_id_def length_hexdigest length_md5)
  ultimately show ?thesis by simp
qed

theorem job_id_normalised_witness:
  "generate_job_id ''  SENIOR pm'' ''ACME'' (''pune '' @ [CHR 0x0A]) = generate_job_id ''Senior PM'' ''Acme'' ''Pune''
   \<and> length (generate_job_id ''Senior PM'' ''Acme'' ''Pune'') = 12"
proof -
  have h1: "py_lower ''SENIOR pm'' = py_lower ''Senior PM''" by code_simp
  have h2: "py_lower ''ACME'' = py_lower ''Acme''" by code_simp
  have h3: "py_lower ''pune'' = py_lower ''Pune''" by code_simp
  have h4: "\<forall>x\<in>set ''  ''. py_isspace x" by code_simp
  have h5: "\<forall>x\<in>set ('' '' @ [CHR 0x0A]). py_isspace x" by code_simp
  show ?thesis
    using job_id_normalised [OF h1 h2 h3 h4 h5] by simp
qed

text \<open>
  C2 as the specification states it fails: whitespace at the end of the title lies inside
  the concatenation, is not stripped, and changes the identifier.
\<close>

theorem job_id_title_whitespace:
  "generate_job_id ''Senior PM '' ''Acme'' ''Pune'' = ''82bdf92697c0''
   \<and> generate_job_id ''Senior PM'' ''Acme'' ''Pune'' = ''b44104635167''
   \<and> generate_job_id ''Senior PM '' ''Acme'' ''Pune'' \<noteq> generate_job_id ''Senior PM'' ''Acme'' ''Pune''"
  by code_simp

subsection \<open>Statistics\<close>

lemma buckets_fold:
  "foldl (\<lambda>b j. AList.map_entry (bucket_key (score_of j)) Suc b)
     [(''90-100'', a), (''70-89'', b), (''50-69'', c), (''30-49'', d), (''0-29'', e)] js
   = [(''90-100'', a + length [j\<leftarrow>js. 90 \<le> score_of j]),
      (''70-89'', b + length [j\<leftarrow>js. 70 \<le> score_of j \<and> score_of j < 90]),
      (''50-69'', c + length [j\<leftarrow>js. 50 \<le> score_of j \<and> score_of j < 70]),
      (''30-49'', d + length [j\<leftarrow>js. 30 \<le> score_of j \<and> score_of j < 50]),
      (''0-29'', e + length [j\<leftarrow>js. score_of j < 30])]"
  by (induction js arbitrary: a b c d e) (simp_all add: bucket_key_def)

lemma partition_count:
  "length [j\<leftarrow>js. 90 \<le> score_of j]
   + length [j\<leftarrow>js. 70 \<le> score_of j \<and> score_of j < 90]
   + length [j\<leftarrow>js. 50 \<le> score_of j \<and> score_of j < 70]
   + length [j\<leftarrow>js. 30 \<le> score_of j \<and> score_of j < 50]
   + length [j\<leftarrow>js. score_of j < 30] = length js"
  by (induction js) auto

text \<open>
  C10: for every job collection, with scores missing or outside 0..100 as well, the score
  distribution counts each job under exactly one of the five keys: a job is counted under
  "90-100" when its score is at least 90, under "70-89", "50-69" or "30-49" when the score
  lies in that range, and under "0-29" when it is below 30 or missing; the five counts add
  up to the number of jobs.
\<close>

theorem buckets_exhaustive:
  "score_buckets js =
     [(''90-100'', length [j\<leftarrow>js. 90 \<le> score_of j]),
      (''70-89'', length [j\<leftarrow>js. 70 \<le> score_of j \<and> score_of j < 90]),
      (''50-69'', length [j\<leftarrow>js. 50 \<le> score_of j \<and> score_of j < 70]),
      (''30-49'', length [j\<leftarrow>js. 30 \<le> score_of j \<and> score_of j < 50]),
      (''0-29'', length [j\<leftarrow>js. score_of j < 30])]
   \<and> sum_list (map snd (score_buckets js)) = length js"
proof -
  have eq: "score_buckets js =
     [(''90-100'', length [j\<leftarrow>js. 90 \<le> score_of j]),
      (''70-89'', length [j\<leftarrow>js. 70 \<le> score_of j \<and> score_of j < 90]),
      (''50-69'', length [j\<leftarrow>js. 50 \<le> score_of j \<and> score_of j < 70]),
      (''30-49'', length [j\<leftarrow>js. 30 \<le> score_of j \<and> score_of j < 50]),
      (''0-29'', length [j\<leftarrow>js. score_of j < 30])]"
    unfolding score_buckets_def by (simp add: buckets_fold)
  have "sum_list (map snd (score_buckets js)) = length js"
    unfolding eq using partition_count [of js] by simp
  with eq show ?thesis by simp
qed


text \<open>
  A missing score and the score -5 are counted under "0-29", the score 150 under "90-100".
\<close>

theorem buckets_exhaustive_witness:
  "score_buckets stats_sample =
     [(''90-100'', 2), (''70-89'', 0), (''50-69'', 1), (''30-49'', 1), (''0-29'', 2)]
   \<and> sum_list (map snd (score_buckets stats_sample)) = length stats_sample"
  using buckets_exhaustive [of stats_sample]
  by (simp add: stats_sample_def score_of_def blank_job_def other_rec_def)

end
